theory Spec2Isabelle
  imports Complex_Main
begin

section \<open>The custom-model tutorial of Classy Vision\<close>

text \<open>
  The notebook \<^verbatim>\<open>tutorials/classy_model.ipynb\<close> defines a class \<^verbatim>\<open>MyModel\<close> (a
  constructor, a class method \<^verbatim>\<open>from_config\<close> and a method \<^verbatim>\<open>forward\<close>) and a short
  script that constructs the model, registers it, builds it from a configuration and
  runs it on a random batch.

  Conventions of the embedding:
  \<^item> a Python exception is a value of \<open>error\<close>; a call that can raise returns
    \<open>error + 'a\<close>, with \<open>Inl\<close> for the exception;
  \<^item> a \<^verbatim>\<open>dict\<close> with string keys is a map \<open>string \<rightharpoonup> py_value\<close>;
  \<^item> a tensor is its shape and its elements in row-major order; element values are
    exact reals (the rounding of 32-bit floats, the dtype and the device of a tensor
    are not part of the model, and neither is the value NaN: see \<open>mean\<close>);
  \<^item> a size given to the tensor library must fit a signed 64-bit integer; memory is not
    part of the model: an allocation of a representable size succeeds;
  \<^item> the random number generator of the tensor library is an explicit state: an
    infinite tape of values, from which an initialiser takes a prefix.
\<close>

subsection \<open>Python values, exceptions and configurations\<close>

datatype py_value =
    PyInt int
  | PyStr string
  | PyFloat real
  | PyBool bool
  | PyNone

datatype runtime_reason =
    NegativeDimension
  | PoolRank
  | PoolEmptySpatial
  | ReshapeAmbiguous
  | ReshapeInvalid
  | LinearShapeMismatch nat nat

text \<open>
  The exceptions of Python, by class. \<open>SizeOverflow\<close> stands for the exception the tensor
  library raises for a size that does not fit 64 bits; its class (\<^verbatim>\<open>TypeError\<close> or
  \<^verbatim>\<open>RuntimeError\<close>) depends on the version of the library.
\<close>

datatype error =
    KeyError string
  | TypeError
  | ValueError
  | IndexError
  | AssertionError
  | SizeOverflow
  | RuntimeError runtime_reason

type_synonym config = "string \<rightharpoonup> py_value"

text \<open>Subscription \<^verbatim>\<open>config[key]\<close> of a dict: a missing key raises \<^verbatim>\<open>KeyError\<close>.\<close>

definition getitem :: "config \<Rightarrow> string \<Rightarrow> error + py_value" where
  "getitem config key = (case config key of None \<Rightarrow> Inl (KeyError key) | Some v \<Rightarrow> Inr v)"

subsection \<open>Tensors and the random source\<close>

record 'a tensor =
  shape :: "nat list"
  data :: "'a list"

definition numel :: "nat list \<Rightarrow> nat" where
  "numel dims = prod_list dims"

definition wf_tensor :: "'a tensor \<Rightarrow> bool" where
  "wf_tensor t = (length (data t) = numel (shape t))"

type_synonym rng = "nat \<Rightarrow> real"

text \<open>Taking \<open>k\<close> values from the random source advances it by \<open>k\<close>.\<close>

definition draw :: "nat \<Rightarrow> rng \<Rightarrow> real list \<times> rng" where
  "draw k g = (map g [0..<k], (\<lambda>i. g (i + k)))"

text \<open>\<^verbatim>\<open>torch.rand(dims)\<close>: a fresh tensor of the given shape filled from the random source.\<close>

definition rand :: "nat list \<Rightarrow> rng \<Rightarrow> real tensor \<times> rng" where
  "rand dims g = (case draw (numel dims) g of (vs, g') \<Rightarrow> (\<lparr>shape = dims, data = vs\<rparr>, g'))"

subsection \<open>The layers of the model\<close>

text \<open>
  \<^verbatim>\<open>nn.AdaptiveAvgPool2d(output_size)\<close> has no learnable parameter: the layer is its
  output size.
\<close>

record adaptive_avg_pool2d =
  output_size :: "nat \<times> nat"

text \<open>
  \<^verbatim>\<open>nn.Linear(in_features, out_features)\<close> holds a weight of shape
  \<open>[out_features, in_features]\<close> and a bias of shape \<open>[out_features]\<close>.
\<close>

record linear =
  in_features :: nat
  out_features :: nat
  weight :: "real tensor"
  bias :: "real tensor"

text \<open>
  The constructor of \<^verbatim>\<open>nn.Linear\<close> allocates the two parameters and fills them from
  the random source (weight first, then bias). A size that is not a Python \<^verbatim>\<open>int\<close>
  is a \<^verbatim>\<open>TypeError\<close>, an \<^verbatim>\<open>int\<close> outside the signed 64-bit range cannot be read as a
  size, a negative size is a \<^verbatim>\<open>RuntimeError\<close>; all three are raised by the allocation,
  before anything is drawn.
\<close>

definition int64_range :: "int \<Rightarrow> bool" where
  "int64_range n = (- (2 ^ 63) \<le> n \<and> n < 2 ^ 63)"

definition Linear_init :: "nat \<Rightarrow> py_value \<Rightarrow> rng \<Rightarrow> (error + linear) \<times> rng" where
  "Linear_init num_in out_v g =
     (case out_v of
        PyInt n \<Rightarrow>
          if \<not> int64_range n then (Inl SizeOverflow, g)
          else if n < 0 then (Inl (RuntimeError NegativeDimension), g)
          else
            (case draw (nat n * num_in) g of (w, g1) \<Rightarrow>
             case draw (nat n) g1 of (b, g2) \<Rightarrow>
               (Inr \<lparr>in_features = num_in, out_features = nat n,
                     weight = \<lparr>shape = [nat n, num_in], data = w\<rparr>,
                     bias = \<lparr>shape = [nat n], data = b\<rparr>\<rparr>, g2))
      | _ \<Rightarrow> (Inl TypeError, g))"

subsection \<open>The class MyModel: constructor and from_config\<close>

text \<open>
  An instance of \<^verbatim>\<open>MyModel\<close>: the two sub-modules assigned by the constructor and the
  \<^verbatim>\<open>training\<close> flag every \<^verbatim>\<open>nn.Module\<close> carries (set by the base constructor).
\<close>

record MyModel =
  avgpool :: adaptive_avg_pool2d
  fc :: linear
  training :: bool

text \<open>
  \<^verbatim>\<open>
  def __init__(self, num_classes):
      super().__init__()
      self.avgpool = nn.AdaptiveAvgPool2d((1, 1))
      num_channels = 3
      self.fc = nn.Linear(num_channels, num_classes)
  \<close>
\<close>

definition MyModel_init :: "py_value \<Rightarrow> rng \<Rightarrow> (error + MyModel) \<times> rng" where
  "MyModel_init num_classes g =
     (let pool = \<lparr>output_size = (1, 1)\<rparr>;
          num_channels = 3
      in case Linear_init num_channels num_classes g of
           (Inl e, g') \<Rightarrow> (Inl e, g')
         | (Inr l, g') \<Rightarrow> (Inr \<lparr>avgpool = pool, fc = l, training = True\<rparr>, g'))"

text \<open>
  \<^verbatim>\<open>
  @classmethod
  def from_config(cls, config):
      return cls(num_classes=config["num_classes"])
  \<close>
  The class \<^verbatim>\<open>cls\<close> is \<^verbatim>\<open>MyModel\<close> itself: the notebook declares no subclass.
\<close>

definition from_config :: "config \<Rightarrow> rng \<Rightarrow> (error + MyModel) \<times> rng" where
  "from_config config g =
     (case getitem config ''num_classes'' of
        Inl e \<Rightarrow> (Inl e, g)
      | Inr v \<Rightarrow> MyModel_init v g)"


text \<open>The configuration of the tutorial's last cell.\<close>

definition model_config :: config where
  "model_config = [''name'' \<mapsto> PyStr ''my_model'', ''num_classes'' \<mapsto> PyInt 3]"

definition is_int :: "py_value \<Rightarrow> bool" where
  "is_int v = (case v of PyInt _ \<Rightarrow> True | _ \<Rightarrow> False)"

definition is_str :: "py_value \<Rightarrow> bool" where
  "is_str v = (case v of PyStr _ \<Rightarrow> True | _ \<Rightarrow> False)"

subsection \<open>The tensor operations forward calls\<close>

text \<open>
  \<^verbatim>\<open>t.size(i)\<close> for a non-negative \<open>i\<close>: the \<open>i\<close>-th dimension, \<^verbatim>\<open>IndexError\<close> when the
  tensor has no such dimension.
\<close>

definition size_dim :: "'a tensor \<Rightarrow> nat \<Rightarrow> error + nat" where
  "size_dim t i = (if i < length (shape t) then Inr (shape t ! i) else Inl IndexError)"

text \<open>
  The mean of a list of elements. The library gives NaN for the mean of no element; the
  reals have no such value, and \<open>mean []\<close> is \<open>0 / 0\<close>, which is \<open>0\<close> here. No statement
  below reads a value computed from an empty plane.
\<close>

definition mean :: "real list \<Rightarrow> real" where
  "mean xs = sum_list xs / real (length xs)"

text \<open>
  Adaptive average pooling splits each spatial axis of length \<open>c\<close> into \<open>b\<close> windows; window
  \<open>a\<close> covers the indices from \<open>\<lfloor>a * c / b\<rfloor>\<close> up to, not including, \<open>\<lceil>(a + 1) * c / b\<rceil>\<close>.
\<close>

definition start_index :: "nat \<Rightarrow> nat \<Rightarrow> nat \<Rightarrow> nat" where
  "start_index a b c = (a * c) div b"

definition end_index :: "nat \<Rightarrow> nat \<Rightarrow> nat \<Rightarrow> nat" where
  "end_index a b c = ((a + 1) * c + b - 1) div b"

text \<open>
  The elements of one pooling window: plane \<open>p\<close> of a tensor whose last two dimensions are
  \<open>H\<close> and \<open>W\<close>, rows \<open>h0..<h1\<close>, columns \<open>w0..<w1\<close>, read from the row-major data.
\<close>

definition window :: "real list \<Rightarrow> nat \<Rightarrow> nat \<Rightarrow> nat \<Rightarrow> nat \<Rightarrow> nat \<Rightarrow> nat \<Rightarrow> nat \<Rightarrow> real list" where
  "window xs H W p h0 h1 w0 w1 =
     concat (map (\<lambda>h. map (\<lambda>w. xs ! (p * H * W + h * W + w)) [w0..<w1]) [h0..<h1])"

text \<open>
  Calling an \<^verbatim>\<open>nn.AdaptiveAvgPool2d\<close> layer whose output size is a pair. An input with
  fewer than three dimensions is refused with a \<^verbatim>\<open>ValueError\<close>. For the output size
  \<open>(1, 1)\<close> the library takes the mean over the last two dimensions and keeps them with
  length 1: any number of leading dimensions is accepted, and so is an empty plane. For any
  other output size the pooling kernel runs: its inputs are \<open>(N, C, H, W)\<close> and \<open>(C, H, W)\<close>
  with non-empty spatial dimensions, and every plane gives \<open>oh * ow\<close> window means.
\<close>

definition adaptive_avg_pool2d_call :: "adaptive_avg_pool2d \<Rightarrow> real tensor \<Rightarrow> error + real tensor" where
  "adaptive_avg_pool2d_call layer x =
     (let r = length (shape x) in
      if r < 3 then Inl ValueError
      else
        let lead = take (r - 2) (shape x);
            H = shape x ! (r - 2);
            W = shape x ! (r - 1);
            oh = fst (output_size layer);
            ow = snd (output_size layer)
        in if output_size layer = (1, 1) then
             Inr \<lparr>shape = lead @ [1, 1],
                   data = map (\<lambda>p. mean (window (data x) H W p 0 H 0 W)) [0..<numel lead]\<rparr>
           else if r \<noteq> 3 \<and> r \<noteq> 4 then Inl (RuntimeError PoolRank)
           else if H = 0 \<or> W = 0 then Inl (RuntimeError PoolEmptySpatial)
           else Inr \<lparr>shape = lead @ [oh, ow],
                     data = concat (map (\<lambda>p.
                              concat (map (\<lambda>i.
                                map (\<lambda>j. mean (window (data x) H W p
                                                  (start_index i oh H) (end_index i oh H)
                                                  (start_index j ow W) (end_index j ow W)))
                                    [0..<ow])
                                [0..<oh]))
                              [0..<numel lead])\<rparr>)"

text \<open>
  \<^verbatim>\<open>t.reshape(dims)\<close>, with the library's inference of a dimension written \<open>-1\<close>: at most one
  dimension may be \<open>-1\<close> and no other may be negative; the known dimensions must multiply to
  the number of elements, or divide it when a dimension is inferred; a dimension cannot be
  inferred when the known ones multiply to zero. The elements keep their row-major order.
\<close>

definition reshape :: "'a tensor \<Rightarrow> int list \<Rightarrow> error + 'a tensor" where
  "reshape t dims =
     (let n = numel (shape t);
          known = filter (\<lambda>d. d \<noteq> - 1) dims;
          inferred = length dims - length known;
          newsize = nat (prod_list known)
      in if 1 < inferred \<or> list_ex (\<lambda>d. d < 0) known then Inl (RuntimeError ReshapeInvalid)
         else if n = newsize \<or> (inferred = 1 \<and> 0 < newsize \<and> n mod newsize = 0) then
           (if inferred = 1 then
              (if newsize = 0 then Inl (RuntimeError ReshapeAmbiguous)
               else Inr \<lparr>shape = map (\<lambda>d. if d = - 1 then n div newsize else nat d) dims,
                         data = data t\<rparr>)
            else Inr \<lparr>shape = map nat dims, data = data t\<rparr>)
         else Inl (RuntimeError ReshapeInvalid))"

definition dot :: "real list \<Rightarrow> real list \<Rightarrow> real" where
  "dot xs ys = sum_list (map (\<lambda>(a, b). a * b) (zip xs ys))"

text \<open>
  Calling an \<^verbatim>\<open>nn.Linear\<close> layer: the last dimension of the input must be \<open>in_features\<close>,
  otherwise the matrix product raises a \<^verbatim>\<open>RuntimeError\<close> on the two shapes. Every row \<open>v\<close> of
  the input gives the row \<open>v W\<^sup>T + b\<close> of the output.
\<close>

definition linear_call :: "linear \<Rightarrow> real tensor \<Rightarrow> error + real tensor" where
  "linear_call l x =
     (let k = in_features l in
      if shape x = [] then Inl (RuntimeError (LinearShapeMismatch 0 k))
      else if last (shape x) \<noteq> k then Inl (RuntimeError (LinearShapeMismatch (last (shape x)) k))
      else Inr \<lparr>shape = butlast (shape x) @ [out_features l],
                data = concat (map (\<lambda>r.
                         map (\<lambda>j. dot (take k (drop (r * k) (data x)))
                                      (take k (drop (j * k) (data (weight l))))
                                  + data (bias l) ! j)
                             [0..<out_features l])
                         [0..<numel (butlast (shape x))])\<rparr>)"

subsection \<open>MyModel.forward\<close>

text \<open>
  \<^verbatim>\<open>
  def forward(self, x):
      out = self.avgpool(x)
      out = out.reshape(out.size(0), -1)
      out = self.fc(out)
      return out
  \<close>
  An exception of any of the calls ends the method.
\<close>

definition forward :: "MyModel \<Rightarrow> real tensor \<Rightarrow> error + real tensor" where
  "forward self x =
     (case adaptive_avg_pool2d_call (avgpool self) x of
        Inl e \<Rightarrow> Inl e
      | Inr out \<Rightarrow>
          (case size_dim out 0 of
             Inl e \<Rightarrow> Inl e
           | Inr n \<Rightarrow>
               (case reshape out [int n, - 1] of
                  Inl e \<Rightarrow> Inl e
                | Inr out' \<Rightarrow> linear_call (fc self) out')))"

text \<open>
  What the constructor establishes and training keeps: the pooling layer reduces every
  plane to one value, the projection reads three features, and the two parameters of the
  projection have the shapes of their layer. Training changes the values of the
  parameters only.
\<close>

definition MyModel_inv :: "MyModel \<Rightarrow> bool" where
  "MyModel_inv m =
     (output_size (avgpool m) = (1, 1) \<and>
      in_features (fc m) = 3 \<and>
      shape (weight (fc m)) = [out_features (fc m), 3] \<and>
      shape (bias (fc m)) = [out_features (fc m)] \<and>
      wf_tensor (weight (fc m)) \<and>
      wf_tensor (bias (fc m)))"

text \<open>
  The values the pooling layer of the model computes on a batch of shape \<open>[N, C, H, W]\<close>:
  the mean of every plane, in row-major order of \<open>(sample, channel)\<close>.
\<close>

definition pooled :: "real tensor \<Rightarrow> real list" where
  "pooled x =
     (case shape x of
        [N, C, H, W] \<Rightarrow> map (\<lambda>p. mean (window (data x) H W p 0 H 0 W)) [0..<N * C]
      | _ \<Rightarrow> [])"

text \<open>
  Calling a module, \<^verbatim>\<open>my_model(x)\<close>: no hook is registered on the model, so the call runs
  \<^verbatim>\<open>forward\<close>; \<^verbatim>\<open>forward\<close> assigns to no attribute of \<^verbatim>\<open>self\<close>, so the module after the call
  is the module before it.
\<close>

definition Module_call :: "MyModel \<Rightarrow> real tensor \<Rightarrow> (error + real tensor) \<times> MyModel" where
  "Module_call self x = (forward self x, self)"

subsection \<open>The composition the specification describes\<close>

text \<open>
  The specification describes forward as a fixed pooling followed by a linear projection:
  adaptive average pooling to one value per channel, then the projection \<^verbatim>\<open>fc\<close> applied to
  the flattened pooled values. The three definitions below follow these words, entry by
  entry, for a batch of shape \<open>[N, C, H, W]\<close>; they are compared with \<open>forward\<close>, which
  follows the code.

  The pooled value of sample \<open>i\<close> and channel \<open>c\<close> is the mean of the \<open>H * W\<close> elements of
  that plane (element \<open>(i, c, h, w)\<close> is at position \<open>((i * C + c) * H + h) * W + w\<close>).
\<close>

definition channel_mean :: "real tensor \<Rightarrow> nat \<Rightarrow> nat \<Rightarrow> real" where
  "channel_mean x i c =
     (let C = shape x ! 1; H = shape x ! 2; W = shape x ! 3
      in (\<Sum>h\<leftarrow>[0..<H]. \<Sum>w\<leftarrow>[0..<W]. data x ! (((i * C + c) * H + h) * W + w)) / real (H * W))"

text \<open>
  Output \<open>j\<close> of the projection of a vector \<open>v\<close>: the product of \<open>v\<close> with row \<open>j\<close> of the
  weight, plus entry \<open>j\<close> of the bias.
\<close>

definition project :: "linear \<Rightarrow> (nat \<Rightarrow> real) \<Rightarrow> nat \<Rightarrow> real" where
  "project l v j =
     (\<Sum>c\<leftarrow>[0..<in_features l]. v c * data (weight l) ! (j * in_features l + c))
       + data (bias l) ! j"

definition spec_pool_then_project :: "MyModel \<Rightarrow> real tensor \<Rightarrow> real tensor" where
  "spec_pool_then_project m x =
     \<lparr>shape = [shape x ! 0, out_features (fc m)],
      data = concat (map (\<lambda>i. map (\<lambda>j. project (fc m) (channel_mean x i) j)
                                   [0..<out_features (fc m)])
                         [0..<shape x ! 0])\<rparr>"

subsection \<open>The framework: registry, build_model and the task\<close>

text \<open>
  An object the framework's registry can build: an instance of \<^verbatim>\<open>MyModel\<close>, or an instance
  of some other registered class (known here by the name of its class only).
\<close>

datatype classy_model =
    MyModel_instance MyModel
  | Foreign_instance string

text \<open>\<^verbatim>\<open>isinstance(obj, MyModel)\<close>.\<close>

definition isinstance_MyModel :: "classy_model \<Rightarrow> bool" where
  "isinstance_MyModel obj = (case obj of MyModel_instance _ \<Rightarrow> True | Foreign_instance _ \<Rightarrow> False)"

type_synonym model_constructor = "config \<Rightarrow> rng \<Rightarrow> (error + classy_model) \<times> rng"

type_synonym registry = "string \<rightharpoonup> model_constructor"

text \<open>
  What the class \<^verbatim>\<open>MyModel\<close> gives the registry: its \<^verbatim>\<open>from_config\<close>, whose result is an
  instance of the class.
\<close>

definition MyModel_cls :: model_constructor where
  "MyModel_cls config g =
     (case from_config config g of
        (Inl e, g') \<Rightarrow> (Inl e, g')
      | (Inr m, g') \<Rightarrow> (Inr (MyModel_instance m), g'))"

text \<open>
  Modelled from the spec: the decorator \<^verbatim>\<open>register_model\<close> of \<^verbatim>\<open>classy_vision.models\<close> is
  not in the sources. The specification describes the registry as a name-to-constructor
  lookup table; registering a class under a name enters it in the table.
\<close>

definition register_model :: "string \<Rightarrow> model_constructor \<Rightarrow> registry \<Rightarrow> registry" where
  "register_model name cls reg = reg(name \<mapsto> cls)"

text \<open>
  Modelled from the spec: the function \<^verbatim>\<open>build_model\<close> of \<^verbatim>\<open>classy_vision.models\<close> is not
  in the sources. The specification describes a configuration as a mapping with a string
  field identifying the registered model name and further fields consumed by that model's
  construction logic, and the registry as the table by which the configuration selects
  the class to instantiate: the name is looked up and the constructor found is applied to
  the whole configuration. The specification does not say what a missing or unregistered
  name gives; both are failed lookups here.
\<close>

definition build_model :: "registry \<Rightarrow> config \<Rightarrow> rng \<Rightarrow> (error + classy_model) \<times> rng" where
  "build_model reg config g =
     (case getitem config ''name'' of
        Inl e \<Rightarrow> (Inl e, g)
      | Inr v \<Rightarrow>
          (case v of
             PyStr name \<Rightarrow>
               (case reg name of
                  None \<Rightarrow> (Inl (KeyError name), g)
                | Some cls \<Rightarrow> cls config g)
           | _ \<Rightarrow> (Inl TypeError, g)))"

text \<open>
  Modelled from the spec: the class \<^verbatim>\<open>ClassificationTask\<close> of \<^verbatim>\<open>classy_vision.tasks\<close> is not
  in the sources, and the specification only names the task interface the notebook calls.
  A task is modelled as the holder of the model it was given; \<^verbatim>\<open>set_model\<close> stores the model
  and returns the task (the notebook binds its result).
\<close>

record classification_task =
  base_model :: "classy_model option"

definition ClassificationTask :: classification_task where
  "ClassificationTask = \<lparr>base_model = None\<rparr>"

definition set_model :: "classification_task \<Rightarrow> classy_model \<Rightarrow> classification_task" where
  "set_model task model = task\<lparr>base_model := Some model\<rparr>"

subsection \<open>The script of the notebook\<close>

text \<open>
  The names the notebook has bound when its last cell has run, and what that cell printed.
\<close>

record notebook =
  my_task :: classification_task
  my_model :: classy_model
  models :: registry
  x_in :: "real tensor"
  printed :: "real tensor"

text \<open>
  The code cells in order, started with a registry \<open>reg\<close> and a random source \<open>g\<close>:
  \<^verbatim>\<open>
  my_model = MyModel(num_classes=1000)
  my_task = ClassificationTask().set_model(my_model)
  @register_model("my_model") class MyModel(ClassyModel): ...
  model_config = {"name": "my_model", "num_classes": 3}
  my_model = build_model(model_config)
  assert isinstance(my_model, MyModel)
  x = torch.rand((1, 3, 200, 200))
  with torch.no_grad(): print(my_model(x))
  \<close>
  The second class statement repeats the constructor and \<^verbatim>\<open>forward\<close> of the first and adds
  \<^verbatim>\<open>from_config\<close>; the instance checked by the assertion is then known to be a \<^verbatim>\<open>MyModel\<close>, and
  calling it runs \<^verbatim>\<open>MyModel.forward\<close>.
\<close>

definition tutorial :: "registry \<Rightarrow> rng \<Rightarrow> (error + notebook) \<times> rng" where
  "tutorial reg g =
     (case MyModel_init (PyInt 1000) g of
        (Inl e, g1) \<Rightarrow> (Inl e, g1)
      | (Inr first_model, g1) \<Rightarrow>
          let task = set_model ClassificationTask (MyModel_instance first_model);
              reg' = register_model ''my_model'' MyModel_cls reg
          in case build_model reg' model_config g1 of
               (Inl e, g2) \<Rightarrow> (Inl e, g2)
             | (Inr built, g2) \<Rightarrow>
                 (case built of
                    Foreign_instance _ \<Rightarrow> (Inl AssertionError, g2)
                  | MyModel_instance m \<Rightarrow>
                      (case rand [1, 3, 200, 200] g2 of
                         (x, g3) \<Rightarrow>
                           (case fst (Module_call m x) of
                              Inl e \<Rightarrow> (Inl e, g3)
                            | Inr y \<Rightarrow>
                                (Inr \<lparr>my_task = task, my_model = built, models = reg',
                                      x_in = x, printed = y\<rparr>, g3)))))"

subsection \<open>Concrete objects for the examples\<close>

definition ramp :: rng where
  "ramp i = real i"

definition example_model :: MyModel where
  "example_model =
     \<lparr>avgpool = \<lparr>output_size = (1, 1)\<rparr>,
      fc = \<lparr>in_features = 3, out_features = 2,
            weight = \<lparr>shape = [2, 3], data = [0, 1, 2, 3, 4, 5]\<rparr>,
            bias = \<lparr>shape = [2], data = [6, 7]\<rparr>\<rparr>,
      training = True\<rparr>"


definition example_batch :: "real tensor" where
  "example_batch = \<lparr>shape = [1, 3, 2, 2], data = [1, 2, 3, 4, 5, 6, 7, 8, 9, 10, 11, 12]\<rparr>"

definition empty_registry :: registry where
  "empty_registry = Map.empty"


section \<open>Properties\<close>

subsection \<open>Building from a configuration\<close>

lemma from_config_present:
  "config ''num_classes'' = Some v \<Longrightarrow> from_config config g = MyModel_init v g"
  by (simp add: from_config_def getitem_def)

lemma from_config_missing:
  "config ''num_classes'' = None \<Longrightarrow> from_config config g = (Inl (KeyError ''num_classes''), g)"
  by (simp add: from_config_def getitem_def)

lemma MyModel_init_no_KeyError: "fst (MyModel_init v g) \<noteq> Inl (KeyError k)"
  by (cases v) (auto simp: MyModel_init_def Linear_init_def Let_def split: prod.splits)

lemma MyModel_init_int:
  "0 \<le> n \<Longrightarrow> n < 2 ^ 63 \<Longrightarrow>
   MyModel_init (PyInt n) g =
     (Inr \<lparr>avgpool = \<lparr>output_size = (1, 1)\<rparr>,
           fc = \<lparr>in_features = 3, out_features = nat n,
                 weight = \<lparr>shape = [nat n, 3], data = map g [0..<nat n * 3]\<rparr>,
                 bias = \<lparr>shape = [nat n], data = map (\<lambda>i. g (i + nat n * 3)) [0..<nat n]\<rparr>\<rparr>,
           training = True\<rparr>,
      (\<lambda>i. g (i + nat n + nat n * 3)))"
  by (simp add: MyModel_init_def Linear_init_def int64_range_def draw_def Let_def add.assoc)

text \<open>
  C1. For every configuration that contains the key \<^verbatim>\<open>"num_classes"\<close>,
  \<^verbatim>\<open>MyModel.from_config\<close> is exactly the constructor call on the value bound to that key:
  the same result (a model, or the exception the constructor raises) and the same state of
  the random source afterwards.
\<close>

theorem from_config_is_constructor_call:
  "config ''num_classes'' = Some v \<Longrightarrow> from_config config g = MyModel_init v g"
  by (rule from_config_present)

theorem from_config_is_constructor_call_witness:
  "model_config ''num_classes'' = Some (PyInt 3) \<and>
   from_config model_config ramp = MyModel_init (PyInt 3) ramp"
  using from_config_is_constructor_call [of model_config "PyInt 3" ramp]
  by (simp add: model_config_def)

text \<open>
  C10. \<^verbatim>\<open>MyModel.from_config\<close> raises \<^verbatim>\<open>KeyError\<close> exactly when the configuration has no
  key \<^verbatim>\<open>"num_classes"\<close>. When it does, the result is the exception alone and the random
  source is untouched: no constructor ran and no parameter was drawn. The entry under
  \<^verbatim>\<open>"name"\<close> is never read: changing or removing it changes nothing.
\<close>

theorem from_config_KeyError_iff:
  "((\<exists>k. fst (from_config config g) = Inl (KeyError k)) = (config ''num_classes'' = None)) \<and>
   (config ''num_classes'' = None \<longrightarrow>
      from_config config g = (Inl (KeyError ''num_classes''), g)) \<and>
   from_config (config(''name'' := u)) g = from_config config g"
proof (intro conjI impI)
  show "(\<exists>k. fst (from_config config g) = Inl (KeyError k)) = (config ''num_classes'' = None)"
  proof (cases "config ''num_classes''")
    case None
    then show ?thesis by (simp add: from_config_missing)
  next
    case (Some v)
    then show ?thesis by (simp add: from_config_present MyModel_init_no_KeyError)
  qed
next
  assume "config ''num_classes'' = None"
  then show "from_config config g = (Inl (KeyError ''num_classes''), g)"
    by (rule from_config_missing)
next
  show "from_config (config(''name'' := u)) g = from_config config g"
    by (simp add: from_config_def getitem_def)
qed

theorem from_config_KeyError_iff_witness:
  "[''name'' \<mapsto> PyStr ''my_model''] ''num_classes'' = None \<and>
   from_config [''name'' \<mapsto> PyStr ''my_model''] ramp
     = (Inl (KeyError ''num_classes''), ramp) \<and>
   (\<exists>k. fst (from_config [''name'' \<mapsto> PyStr ''my_model''] ramp) = Inl (KeyError k)) \<and>
   \<not> (\<exists>k. fst (from_config model_config ramp) = Inl (KeyError k))"
  using from_config_KeyError_iff [of "[''name'' \<mapsto> PyStr ''my_model'']" ramp]
        from_config_KeyError_iff [of model_config ramp]
  by (simp add: model_config_def)

text \<open>
  C7. The configuration of the tutorial has exactly the two string keys \<^verbatim>\<open>"name"\<close> and
  \<^verbatim>\<open>"num_classes"\<close>; the first is bound to the string \<^verbatim>\<open>"my_model"\<close>, the second to an
  integer (the integer 3).
\<close>

theorem model_config_contents:
  "dom model_config = {''name'', ''num_classes''} \<and>
   model_config ''name'' = Some (PyStr ''my_model'') \<and>
   model_config ''num_classes'' = Some (PyInt 3) \<and>
   is_str (the (model_config ''name'')) \<and>
   is_int (the (model_config ''num_classes''))"
  by (auto simp: model_config_def is_str_def is_int_def)



subsection \<open>Facts about forward\<close>

lemma pool_4d:
  assumes "output_size layer = (1, 1)" and "shape x = [N, C, H, W]"
  shows "adaptive_avg_pool2d_call layer x =
           Inr \<lparr>shape = [N, C, 1, 1],
                 data = map (\<lambda>p. mean (window (data x) H W p 0 H 0 W)) [0..<N * C]\<rparr>"
  using assms by (simp add: adaptive_avg_pool2d_call_def Let_def numel_def)

lemma reshape_flatten:
  assumes "shape t = [N, C, 1, 1]" and "0 < N"
  shows "reshape t [int N, - 1] = Inr \<lparr>shape = [N, C], data = data t\<rparr>"
  using assms by (simp add: reshape_def Let_def numel_def)

lemma reshape_flatten_empty:
  assumes "shape t = [0, C, 1, 1]"
  shows "reshape t [0, - 1] = Inl (RuntimeError ReshapeAmbiguous)"
  using assms by (simp add: reshape_def Let_def numel_def)

lemma linear_2d:
  assumes "shape x = [N, C]"
  shows "linear_call l x =
           (if C \<noteq> in_features l then Inl (RuntimeError (LinearShapeMismatch C (in_features l)))
            else Inr \<lparr>shape = [N, out_features l],
                      data = concat (map (\<lambda>r.
                         map (\<lambda>j. dot (take (in_features l) (drop (r * in_features l) (data x)))
                                      (take (in_features l) (drop (j * in_features l) (data (weight l))))
                                  + data (bias l) ! j)
                             [0..<out_features l])
                         [0..<N])\<rparr>)"
  using assms by (simp add: linear_call_def Let_def numel_def)

lemma forward_4d:
  assumes "MyModel_inv m" and "shape x = [N, C, H, W]"
  shows "forward m x =
           (if N = 0 then Inl (RuntimeError ReshapeAmbiguous)
            else if C \<noteq> 3 then Inl (RuntimeError (LinearShapeMismatch C 3))
            else Inr \<lparr>shape = [N, out_features (fc m)],
                      data = concat (map (\<lambda>r.
                         map (\<lambda>j. dot (take 3 (drop (r * 3) (pooled x)))
                                      (take 3 (drop (j * 3) (data (weight (fc m)))))
                                  + data (bias (fc m)) ! j)
                             [0..<out_features (fc m)])
                         [0..<N])\<rparr>)"
proof -
  have os: "output_size (avgpool m) = (1, 1)" and inf: "in_features (fc m) = 3"
    using assms(1) by (simp_all add: MyModel_inv_def)
  note p = pool_4d [OF os assms(2)]
  show ?thesis
  proof (cases "N = 0")
    case True
    then show ?thesis
      by (simp add: forward_def p size_dim_def reshape_flatten_empty)
  next
    case False
    then show ?thesis
      by (simp add: forward_def p size_dim_def reshape_flatten linear_2d inf pooled_def assms(2))
  qed
qed

lemma take_drop_nth:
  "i + k \<le> length xs \<Longrightarrow> take k (drop i xs) = map (\<lambda>c. xs ! (i + c)) [0..<k]"
  by (rule nth_equalityI) simp_all

lemma dot_map_upt:
  "dot (map f [0..<k]) (map g [0..<k]) = (\<Sum>c\<leftarrow>[0..<k]. f c * g c)"
  by (simp add: dot_def zip_map_map zip_same_conv_map comp_def)

lemma dot_slices:
  assumes "i + k \<le> length xs" and "j + k \<le> length ys"
  shows "dot (take k (drop i xs)) (take k (drop j ys)) = (\<Sum>c\<leftarrow>[0..<k]. xs ! (i + c) * ys ! (j + c))"
  by (simp add: take_drop_nth [OF assms(1)] take_drop_nth [OF assms(2)] dot_map_upt)

lemma sum_list_concat_map:
  "sum_list (concat (map f xs)) = (\<Sum>x\<leftarrow>xs. sum_list (f x))"
  by (induction xs) simp_all

lemma mean_window_full:
  "mean (window xs H W p 0 H 0 W)
     = (\<Sum>h\<leftarrow>[0..<H]. \<Sum>w\<leftarrow>[0..<W]. xs ! (p * H * W + h * W + w)) / real (H * W)"
  by (simp add: mean_def window_def sum_list_concat_map length_concat comp_def sum_list_triv)

lemma slice_bound: "r < (N::nat) \<Longrightarrow> r * k + k \<le> N * k"
proof -
  assume "r < N"
  then have "Suc r \<le> N" by simp
  then have "Suc r * k \<le> N * k" by (rule mult_le_mono1)
  then show ?thesis by (simp add: add.commute)
qed

lemma pooled_nth:
  assumes "shape x = [N, C, H, W]" and "i < N" and "c < C"
  shows "pooled x ! (i * C + c) = channel_mean x i c"
proof -
  have "i * C + c < i * C + C" using assms(3) by simp
  also have "\<dots> \<le> N * C" using assms(2) by (rule slice_bound)
  finally have lt: "i * C + c < N * C" .
  show ?thesis
    using lt by (simp add: pooled_def assms(1) mean_window_full channel_mean_def algebra_simps)
qed

lemma length_pooled: "shape x = [N, C, H, W] \<Longrightarrow> length (pooled x) = N * C"
  by (simp add: pooled_def)

lemma forward_entry:
  assumes inv: "MyModel_inv m" and sh: "shape x = [N, 3, H, W]"
    and r: "r < N" and j: "j < out_features (fc m)"
  shows "dot (take 3 (drop (r * 3) (pooled x))) (take 3 (drop (j * 3) (data (weight (fc m)))))
           + data (bias (fc m)) ! j
         = project (fc m) (channel_mean x r) j"
proof -
  have lw: "length (data (weight (fc m))) = out_features (fc m) * 3"
    using inv by (simp add: MyModel_inv_def wf_tensor_def numel_def)
  have b1: "r * 3 + 3 \<le> length (pooled x)"
    using slice_bound [OF r, of 3] by (simp add: length_pooled [OF sh])
  have b2: "j * 3 + 3 \<le> length (data (weight (fc m)))"
    using slice_bound [OF j, of 3] by (simp add: lw)
  have "dot (take 3 (drop (r * 3) (pooled x))) (take 3 (drop (j * 3) (data (weight (fc m)))))
          = (\<Sum>c\<leftarrow>[0..<3]. pooled x ! (r * 3 + c) * data (weight (fc m)) ! (j * 3 + c))"
    by (rule dot_slices [OF b1 b2])
  also have "\<dots> = (\<Sum>c\<leftarrow>[0..<3]. channel_mean x r c * data (weight (fc m)) ! (j * 3 + c))"
    by (rule arg_cong [where f = sum_list], rule map_cong [OF refl])
       (simp add: pooled_nth [OF sh r])
  finally show ?thesis
    using inv by (simp add: project_def MyModel_inv_def)
qed

lemma forward_refines:
  assumes inv: "MyModel_inv m" and sh: "shape x = [N, 3, H, W]"
    and "0 < N" and "0 < H" and "0 < W"
  shows "forward m x = Inr (spec_pool_then_project m x)"
proof -
  have "concat (map (\<lambda>r. map (\<lambda>j.
            dot (take 3 (drop (r * 3) (pooled x))) (take 3 (drop (j * 3) (data (weight (fc m)))))
              + data (bias (fc m)) ! j) [0..<out_features (fc m)]) [0..<N])
      = concat (map (\<lambda>r. map (\<lambda>j. project (fc m) (channel_mean x r) j)
            [0..<out_features (fc m)]) [0..<N])"
    by (rule arg_cong [where f = concat], rule map_cong [OF refl], rule map_cong [OF refl])
       (simp add: forward_entry [OF inv sh])
  then show ?thesis
    using assms by (simp add: forward_4d [OF inv sh] spec_pool_then_project_def)
qed

lemma MyModel_init_inv:
  assumes "fst (MyModel_init v g) = Inr m"
  shows "MyModel_inv m \<and> (\<exists>n. v = PyInt n \<and> 0 \<le> n \<and> n < 2 ^ 63 \<and> out_features (fc m) = nat n)"
proof (cases v)
  case (PyInt n)
  show ?thesis
  proof (cases "0 \<le> n \<and> n < 2 ^ 63")
    case False
    with assms PyInt show ?thesis
      by (auto simp: MyModel_init_def Linear_init_def int64_range_def split: if_splits)
  next
    case True
    then have n: "0 \<le> n" "n < 2 ^ 63" by simp_all
    from assms show ?thesis
      unfolding PyInt MyModel_init_int [OF n]
      using n by (auto simp: MyModel_inv_def wf_tensor_def numel_def)
  qed
qed (use assms in \<open>simp_all add: MyModel_init_def Linear_init_def\<close>)

lemma from_config_inv:
  assumes "fst (from_config config g) = Inr m"
  shows "MyModel_inv m"
proof (cases "config ''num_classes''")
  case None
  with assms show ?thesis by (simp add: from_config_missing)
next
  case (Some v)
  with assms have "fst (MyModel_init v g) = Inr m" by (simp add: from_config_present)
  then show ?thesis by (simp add: MyModel_init_inv)
qed

lemma example_model_built: "fst (MyModel_init (PyInt 2) ramp) = Inr example_model"
  by (simp add: MyModel_init_int example_model_def ramp_def upt_rec [of _ "numeral _"]) 

lemma example_model_inv: "MyModel_inv example_model"
  by (simp add: MyModel_inv_def example_model_def wf_tensor_def numel_def)

lemma example_forward: "spec_pool_then_project example_model example_batch = \<lparr>shape = [1, 2], data = [67 / 2, 93]\<rparr>"
  by (simp add: spec_pool_then_project_def example_model_def example_batch_def project_def channel_mean_def
     upt_rec [of _ "numeral _"] upt_rec [of _ "Suc _"])

text \<open>
  C2. On every batch of shape \<open>[N, 3, H, W]\<close> with \<open>N, H, W \<ge> 1\<close> (a batch that is not
  empty), \<^verbatim>\<open>MyModel.forward\<close> returns exactly the composition the specification describes:
  output \<open>(i, j)\<close> is the projection \<^verbatim>\<open>fc\<close> of the three channel means of sample \<open>i\<close>, and
  nothing else is applied.
\<close>

theorem forward_is_pool_then_project:
  assumes "MyModel_inv m" and "shape x = [N, 3, H, W]" and "0 < N" and "0 < H" and "0 < W"
  shows "forward m x = Inr (spec_pool_then_project m x)"
  using assms by (rule forward_refines)

theorem forward_is_pool_then_project_witness:
  "MyModel_inv example_model \<and> shape example_batch = [1, 3, 2, 2] \<and>
   forward example_model example_batch = Inr (spec_pool_then_project example_model example_batch) \<and>
   spec_pool_then_project example_model example_batch = \<lparr>shape = [1, 2], data = [67 / 2, 93]\<rparr>"
proof -
  have sh: "shape example_batch = [1, 3, 2, 2]"
    by (simp add: example_batch_def)
  have "forward example_model example_batch
          = Inr (spec_pool_then_project example_model example_batch)"
    by (rule forward_is_pool_then_project [OF example_model_inv sh]) simp_all
  with example_model_inv sh example_forward show ?thesis by simp
qed

lemma forward_4d_shape:
  assumes "MyModel_inv m" and "shape x = [N, 3, H, W]" and "0 < N" and "0 < H" and "0 < W"
  shows "\<exists>y. forward m x = Inr y \<and> shape y = [N, out_features (fc m)] \<and> wf_tensor y"
  using assms
  by (simp add: forward_4d [OF assms(1,2)] wf_tensor_def numel_def length_concat comp_def
        sum_list_triv)

text \<open>
  C8. For a model constructed with \<^verbatim>\<open>num_classes = n\<close> and every batch of shape
  \<open>[N, 3, H, W]\<close> with \<open>N, H, W \<ge> 1\<close>, \<^verbatim>\<open>MyModel.forward\<close> returns a tensor of shape \<open>[N, n]\<close>
  (with \<open>N * n\<close> elements).
\<close>

theorem forward_output_shape:
  assumes "fst (MyModel_init (PyInt n) g) = Inr m"
    and "shape x = [N, 3, H, W]" and "0 < N" and "0 < H" and "0 < W"
  shows "\<exists>y. forward m x = Inr y \<and> shape y = [N, nat n] \<and> wf_tensor y"
proof -
  from MyModel_init_inv [OF assms(1)]
  have inv: "MyModel_inv m" and out: "out_features (fc m) = nat n" by auto
  from forward_4d_shape [OF inv assms(2-5)] out show ?thesis by simp
qed

theorem forward_output_shape_witness:
  "fst (MyModel_init (PyInt 2) ramp) = Inr example_model \<and>
   shape example_batch = [1, 3, 2, 2] \<and>
   (\<exists>y. forward example_model example_batch = Inr y \<and> shape y = [1, nat 2] \<and> wf_tensor y)"
proof -
  have sh: "shape example_batch = [1, 3, 2, 2]"
    by (simp add: example_batch_def)
  have "\<exists>y. forward example_model example_batch = Inr y \<and> shape y = [1, nat 2] \<and> wf_tensor y"
    by (rule forward_output_shape [OF example_model_built sh]) simp_all
  with example_model_built sh show ?thesis by simp
qed

text \<open>
  C9, as stated, fails on an empty batch: with five channels and no sample, the flattening
  \<^verbatim>\<open>out.reshape(out.size(0), -1)\<close> cannot infer the second dimension and raises; \<^verbatim>\<open>fc\<close> is
  never reached and receives no vector.
\<close>

theorem empty_batch_fails_in_reshape:
  "fst (MyModel_init (PyInt 2) ramp) = Inr example_model \<and>
   wf_tensor \<lparr>shape = [0, 5, 1, 1], data = []\<rparr> \<and>
   forward example_model \<lparr>shape = [0, 5, 1, 1], data = []\<rparr> = Inl (RuntimeError ReshapeAmbiguous) \<and>
   forward example_model \<lparr>shape = [0, 5, 1, 1], data = []\<rparr>
     \<noteq> Inl (RuntimeError (LinearShapeMismatch 5 3))"
  by (simp add: example_model_built forward_4d [OF example_model_inv] wf_tensor_def numel_def)

text \<open>
  C9, amended. Whatever argument a model is constructed with (directly or by
  \<^verbatim>\<open>from_config\<close>, from any configuration), its projection reads three features. On a batch
  of shape \<open>[N, C, H, W]\<close> with \<open>C \<noteq> 3\<close> forward always fails with a \<^verbatim>\<open>RuntimeError\<close>, so it
  succeeds only when the channel dimension is 3. When the batch has a sample (\<open>N \<ge> 1\<close>),
  whatever \<open>H\<close> and \<open>W\<close>, the error is the shape mismatch of \<^verbatim>\<open>fc\<close>, which receives rows of
  length \<open>C\<close> where it expects 3; when it has none, the error is that of the flattening.
\<close>

theorem channel_count_must_be_three:
  assumes "fst (MyModel_init v g) = Inr m" and "shape x = [N, C, H, W]" and "C \<noteq> 3"
  shows "in_features (fc m) = 3 \<and>
         (\<exists>r. forward m x = Inl (RuntimeError r)) \<and>
         (0 < N \<longrightarrow> forward m x = Inl (RuntimeError (LinearShapeMismatch C 3))) \<and>
         (N = 0 \<longrightarrow> forward m x = Inl (RuntimeError ReshapeAmbiguous))"
proof -
  have inv: "MyModel_inv m"
    using MyModel_init_inv [OF assms(1)] by simp
  then have "in_features (fc m) = 3" by (simp add: MyModel_inv_def)
  then show ?thesis
    using assms(3) by (simp add: forward_4d [OF inv assms(2)])
qed

theorem channel_count_must_be_three_witness:
  "fst (MyModel_init (PyInt 2) ramp) = Inr example_model \<and>
   shape \<lparr>shape = [2, 5, 1, 1], data = [1, 2, 3, 4, 5, 6, 7, 8, 9, 10 :: real]\<rparr> = [2, 5, 1, 1] \<and>
   shape \<lparr>shape = [1, 5, 0, 2], data = [] :: real list\<rparr> = [1, 5, 0, 2] \<and>
   (5 :: nat) \<noteq> 3 \<and>
   in_features (fc example_model) = 3 \<and>
   forward example_model \<lparr>shape = [2, 5, 1, 1], data = [1, 2, 3, 4, 5, 6, 7, 8, 9, 10]\<rparr>
     = Inl (RuntimeError (LinearShapeMismatch 5 3)) \<and>
   forward example_model \<lparr>shape = [1, 5, 0, 2], data = []\<rparr>
     = Inl (RuntimeError (LinearShapeMismatch 5 3))"
  using channel_count_must_be_three
          [OF example_model_built,
           of "\<lparr>shape = [2, 5, 1, 1], data = [1, 2, 3, 4, 5, 6, 7, 8, 9, 10]\<rparr>" 2 5 1 1]
        channel_count_must_be_three
          [OF example_model_built, of "\<lparr>shape = [1, 5, 0, 2], data = []\<rparr>" 1 5 0 2]
  by (simp add: example_model_built)

text \<open>
  C5. Invoking the model leaves it as it was, so a second invocation on the same batch
  gives the same result as the first; and the result depends on the model through its two
  layers only (their parameters), not through the \<^verbatim>\<open>training\<close> flag.
\<close>

theorem forward_deterministic:
  "snd (Module_call m x) = m \<and>
   fst (Module_call (snd (Module_call m x)) x) = fst (Module_call m x) \<and>
   (avgpool m1 = avgpool m2 \<and> fc m1 = fc m2 \<longrightarrow> forward m1 x = forward m2 x) \<and>
   forward (m\<lparr>training := b\<rparr>) x = forward m x"
proof (intro conjI impI)
  show "snd (Module_call m x) = m"
    by (simp add: Module_call_def)
  show "fst (Module_call (snd (Module_call m x)) x) = fst (Module_call m x)"
    by (simp add: Module_call_def)
  show "forward m1 x = forward m2 x" if "avgpool m1 = avgpool m2 \<and> fc m1 = fc m2"
    using that by (simp add: forward_def cong: sum.case_cong)
  show "forward (m\<lparr>training := b\<rparr>) x = forward m x"
    by (simp add: forward_def cong: sum.case_cong)
qed

theorem forward_deterministic_witness:
  "avgpool (example_model\<lparr>training := False\<rparr>) = avgpool example_model \<and>
   fc (example_model\<lparr>training := False\<rparr>) = fc example_model \<and>
   forward (example_model\<lparr>training := False\<rparr>) example_batch = forward example_model example_batch \<and>
   snd (Module_call example_model example_batch) = example_model"
  using forward_deterministic
          [of example_model example_batch "example_model\<lparr>training := False\<rparr>" example_model False]
  by simp

subsection \<open>The registry and the script\<close>

lemma build_model_dispatch:
  assumes "config ''name'' = Some (PyStr ''my_model'')"
  shows "build_model (register_model ''my_model'' MyModel_cls reg) config g = MyModel_cls config g"
  using assms by (simp add: build_model_def register_model_def getitem_def)

lemma MyModel_init_succeeds:
  "0 \<le> n \<Longrightarrow> n < 2 ^ 63 \<Longrightarrow>
   \<exists>m g'. MyModel_init (PyInt n) g = (Inr m, g') \<and> MyModel_inv m \<and> out_features (fc m) = nat n"
  by (simp add: MyModel_init_int MyModel_inv_def wf_tensor_def numel_def)




lemma shape_rand: "shape (fst (rand dims g)) = dims"
  by (simp add: rand_def draw_def)

text \<open>
  C6. From any registry and any state of the random source, every step of the notebook
  succeeds: the script ends without an exception, the task holds a model, the class is
  registered, the model built from the configuration is an instance of \<^verbatim>\<open>MyModel\<close> (the
  assertion holds), and inference on the batch of shape \<open>[1, 3, 200, 200]\<close> prints a tensor
  of shape \<open>[1, 3]\<close>.
\<close>

theorem tutorial_succeeds:
  "\<exists>nb g'. tutorial reg g = (Inr nb, g') \<and>
           isinstance_MyModel (my_model nb) \<and>
           base_model (my_task nb) \<noteq> None \<and>
           models nb ''my_model'' = Some MyModel_cls \<and>
           shape (x_in nb) = [1, 3, 200, 200] \<and>
           shape (printed nb) = [1, 3]"
proof -
  obtain m1 g1 where m1: "MyModel_init (PyInt 1000) g = (Inr m1, g1)"
    using MyModel_init_succeeds [of 1000 g] by auto
  have a: "model_config ''name'' = Some (PyStr ''my_model'')"
    and b: "model_config ''num_classes'' = Some (PyInt 3)"
    by (simp_all add: model_config_def)
  obtain m g2 where m: "MyModel_init (PyInt 3) g1 = (Inr m, g2)"
    and inv: "MyModel_inv m" and out: "out_features (fc m) = nat 3"
    using MyModel_init_succeeds [of 3 g1] by auto
  have built: "build_model (register_model ''my_model'' MyModel_cls reg) model_config g1
                 = (Inr (MyModel_instance m), g2)"
    using m by (simp add: build_model_dispatch [where config = model_config, OF a] MyModel_cls_def from_config_present [where config = model_config, OF b])
  obtain x g3 where x: "rand [1, 3, 200, 200] g2 = (x, g3)"
    by (cases "rand [1, 3, 200, 200] g2")
  have sx: "shape x = [1, 3, 200, 200]"
    using shape_rand [of "[1, 3, 200, 200]" g2] unfolding x by simp
  obtain y where y: "forward m x = Inr y" and sy: "shape y = [1, out_features (fc m)]"
    using forward_4d_shape [OF inv sx] by auto
  have "tutorial reg g =
          (Inr \<lparr>my_task = set_model ClassificationTask (MyModel_instance m1),
                my_model = MyModel_instance m,
                models = register_model ''my_model'' MyModel_cls reg,
                x_in = x, printed = y\<rparr>, g3)"
    by (simp add: tutorial_def m1 built x Module_call_def y Let_def del: One_nat_def)
  then show ?thesis
    using sx sy out
    by (simp add: isinstance_MyModel_def set_model_def register_model_def)
qed

theorem tutorial_succeeds_witness:
  "\<exists>nb g'. tutorial empty_registry ramp = (Inr nb, g') \<and>
           isinstance_MyModel (my_model nb) \<and>
           shape (printed nb) = [1, 3]"
  using tutorial_succeeds [of empty_registry ramp] by blast

end
